theory Spec2Isabelle
  imports Complex_Main
begin

section \<open>Strings and results shared by the views\<close>

text \<open>
  JavaScript strings are modelled as \<^typ>\<open>string\<close>: a list of code units, here the
  8-bit characters of HOL. \<open>length\<close>, \<open>slice\<close>, \<open>trim\<close> and the regular
  expressions of the source all work per code unit.
\<close>

text \<open>The character class \<open>\d\<close> of a JavaScript regular expression: \<open>0\<close> to \<open>9\<close>.\<close>

definition is_digit :: "char \<Rightarrow> bool" where
  "is_digit c = (48 \<le> (of_char c :: nat) \<and> (of_char c :: nat) \<le> 57)"

text \<open>
  White space and line terminators as \<open>String.prototype.trim\<close> strips them, among the
  code units below 256: TAB, LF, VT, FF, CR, SPACE and NBSP.
\<close>

definition is_space :: "char \<Rightarrow> bool" where
  "is_space c = ((of_char c :: nat) \<in> {9, 10, 11, 12, 13, 32, 160})"

definition trim :: "string \<Rightarrow> string" where
  "trim s = rev (dropWhile is_space (rev (dropWhile is_space s)))"

text \<open>\<open>a || b\<close> on a possibly undefined string: \<open>undefined\<close> and \<open>''\<close> are falsy.\<close>

definition truthy :: "string option \<Rightarrow> bool" where
  "truthy a = (case a of None \<Rightarrow> False | Some s \<Rightarrow> s \<noteq> [])"

definition or_else :: "string option \<Rightarrow> string \<Rightarrow> string" where
  "or_else a b = (case a of None \<Rightarrow> b | Some s \<Rightarrow> if s = [] then b else s)"

text \<open>
  What an awaited call of \<open>apiService\<close> gives its caller: the response body, or a thrown
  error. Of the error the handlers read \<open>error.response?.data?.message\<close> and
  \<open>error.message\<close> only.
\<close>

record api_error =
  response_message :: "string option"
  error_message :: "string option"

datatype 'a api_result = Ok 'a | Failed api_error

section \<open>Auth Flow View (src/Pages/SignInUp.tsx)\<close>

datatype AuthMode = signin | signup | forgot

record FormState =
  email :: string
  otp :: string
  password :: string
  newPassword :: string
  mode :: AuthMode
  otpSent :: bool
  otpId :: string
  verificationToken :: string
  loading :: bool
  error :: string
  success :: string
  showSnackbar :: bool

definition initialFormState :: FormState where
  "initialFormState =
     \<lparr>email = '''', otp = '''', password = '''', newPassword = '''', mode = signin,
      otpSent = False, otpId = '''', verificationToken = '''', loading = False,
      error = '''', success = '''', showSnackbar = False\<rparr>"

subsection \<open>Validators\<close>

text \<open>\<open>otp.length === 6 && /^\d+$/.test(otp)\<close>: the regular expression asks for one or
  more digits and nothing else.\<close>

definition validators_otp :: "string \<Rightarrow> bool" where
  "validators_otp s = (length s = 6 \<and> (s \<noteq> [] \<and> list_all is_digit s))"

definition validators_password :: "string \<Rightarrow> bool" where
  "validators_password s = (length s \<ge> 6)"

subsection \<open>The OTP field\<close>

text \<open>The \<open>onChange\<close> handler of the OTP text field:
  \<open>updateFormState({ otp: e.target.value.replace(/\D/g, '').slice(0, 6) })\<close>.\<close>

definition otp_onChange :: "string \<Rightarrow> FormState \<Rightarrow> FormState" where
  "otp_onChange v s = s\<lparr>otp := take 6 (filter is_digit v)\<rparr>"

subsection \<open>Verifying the OTP\<close>

record VerifyOtpRequest =
  vq_email :: string
  vq_otp :: string
  vq_otpId :: string

record VerifyOtpResponse =
  vr_success :: bool
  vr_message :: "string option"
  vr_verificationToken :: "string option"

text \<open>\<open>handleError\<close> and \<open>showSuccess\<close>, as state updates.\<close>

definition handleError :: "api_error \<Rightarrow> FormState \<Rightarrow> FormState" where
  "handleError e s =
     s\<lparr>error := or_else (response_message e)
                 (or_else (error_message e) ''An unexpected error occurred''),
       success := '''', showSnackbar := True, loading := False\<rparr>"

definition showSuccess :: "string \<Rightarrow> FormState \<Rightarrow> FormState" where
  "showSuccess m s = s\<lparr>success := m, error := '''', showSnackbar := True, loading := False\<rparr>"

text \<open>
  \<open>handleVerifyOtp\<close>. The backend's answer to the one call the handler can make is the
  parameter \<open>verifyOtp\<close>. The result is the new form state, the requests issued and the
  boolean the source returns.
\<close>

definition handleVerifyOtp ::
  "(VerifyOtpRequest \<Rightarrow> VerifyOtpResponse api_result) \<Rightarrow> FormState
     \<Rightarrow> FormState \<times> VerifyOtpRequest list \<times> bool" where
  "handleVerifyOtp verifyOtp s =
     (if \<not> validators_otp (otp s)
      then (s\<lparr>error := ''Please enter a valid 6-digit OTP'', showSnackbar := True\<rparr>, [], False)
      else
        let s1 = s\<lparr>loading := True, error := '''', success := ''''\<rparr>;
            verifyRequest = \<lparr>vq_email = email s, vq_otp = otp s, vq_otpId = otpId s\<rparr>
        in case verifyOtp verifyRequest of
             Ok response \<Rightarrow>
               if vr_success response
               then (showSuccess ''OTP verified successfully''
                       (s1\<lparr>verificationToken := or_else (vr_verificationToken response) ''''\<rparr>),
                     [verifyRequest], True)
               else (s1\<lparr>error := or_else (vr_message response) ''Invalid OTP'',
                         showSnackbar := True, loading := False\<rparr>,
                     [verifyRequest], False)
           | Failed e \<Rightarrow> (handleError e s1, [verifyRequest], False))"

subsection \<open>Switching modes\<close>

definition handleModeToggle :: "FormState \<Rightarrow> FormState" where
  "handleModeToggle s =
     (let newMode = (if mode s = signin then signup else signin)
      in initialFormState\<lparr>mode := newMode\<rparr>)"

definition handleForgotPassword :: "FormState \<Rightarrow> FormState" where
  "handleForgotPassword s = initialFormState\<lparr>mode := forgot\<rparr>"

text \<open>The \<open>onClick\<close> of the "Back to Sign In" button.\<close>

definition backToSignIn :: "FormState \<Rightarrow> FormState" where
  "backToSignIn s = initialFormState\<lparr>mode := signin\<rparr>"

section \<open>Chat View (src/Pages/Chat.tsx and its older variant, unnamed/part_001)\<close>

text \<open>
  A \<open>Date\<close> is kept symbolically: \<open>new Date(s)\<close> for a string of the backend, and
  \<open>new Date()\<close> at a reading of the clock (milliseconds). \<open>messageCount\<close> is a
  JavaScript number that only ever holds a count; it is modelled as an integer.
\<close>

datatype date = DateOf string | DateNow int

text \<open>\<open>MessageResponse\<close> and \<open>MessageData\<close> of types/api.ts have the same four fields.\<close>

record APIMessageData =
  api_id :: string
  api_content :: string
  api_role :: string
  api_createdAt :: string

record MessageData =
  msg_id :: string
  msg_text :: string
  isUser :: bool
  timestamp :: date

record Chat =
  chat_id :: string
  title :: string
  messages :: "MessageData list"
  lastMessage :: date
  messageCount :: int

text \<open>The state of the component that the modelled handlers read or write.\<close>

record ChatView =
  chats :: "Chat list"
  activeChat :: string
  message :: string
  isTyping :: bool
  view_error :: "string option"
  deleteDialogOpen :: bool
  chatToDelete :: "string option"
  isMobileSidebarOpen :: bool

text \<open>
  What a handler does besides updating the state: requests to the backend through
  \<open>apiService\<close>, and the timer of \<open>setTimeout(() => createNewChat(), 500)\<close>.
\<close>

datatype effect =
    SendMessageRequest string string
  | GetMessagesRequest string
  | DeleteChatRequest string
  | CreateNewChatAfter nat

text \<open>
  The backend as the handlers meet it: what each awaited call gives for its arguments.
  \<open>Ok\<close> carries the part of the response body the handler reads; a body without it
  makes the handler throw inside its own \<open>try\<close>, which is a \<open>Failed\<close> with no
  response message.
\<close>

record backend =
  sendMessage_api :: "string \<Rightarrow> string \<Rightarrow> (APIMessageData \<times> APIMessageData) api_result"
  getMessages_api :: "string \<Rightarrow> APIMessageData list api_result"
  deleteChat_api :: "string \<Rightarrow> unit api_result"

subsection \<open>loadMessages\<close>

definition formatMessage :: "APIMessageData \<Rightarrow> MessageData" where
  "formatMessage msg =
     \<lparr>msg_id = api_id msg, msg_text = api_content msg,
      isUser = (api_role msg = ''user''), timestamp = DateOf (api_createdAt msg)\<rparr>"

definition loadMessages :: "backend \<Rightarrow> string \<Rightarrow> ChatView \<Rightarrow> ChatView \<times> effect list" where
  "loadMessages be chatId s =
     (case getMessages_api be chatId of
        Ok msgs \<Rightarrow>
          (s\<lparr>chats := map (\<lambda>chat. if chat_id chat = chatId
                                  then chat\<lparr>messages := map formatMessage msgs\<rparr>
                                  else chat) (chats s)\<rparr>,
           [GetMessagesRequest chatId])
      | Failed e \<Rightarrow>
          (s\<lparr>view_error := Some (or_else (response_message e) ''Failed to load messages'')\<rparr>,
           [GetMessagesRequest chatId]))"

subsection \<open>sendMessage\<close>

text \<open>The function that \<open>sendMessage\<close> maps over the chats in its one \<open>setChats\<close>.
  \<open>msg\<close> is the input text as typed; \<open>slice(0, 30)\<close> is \<open>take 30\<close>.\<close>

definition send_update ::
  "string \<Rightarrow> string \<Rightarrow> MessageData \<Rightarrow> MessageData \<Rightarrow> date \<Rightarrow> Chat \<Rightarrow> Chat" where
  "send_update active msg userMessage aiMessage now chat =
     (if chat_id chat = active
      then chat\<lparr>messages := messages chat @ [userMessage, aiMessage],
                title := (if length (messages chat) = 0
                          then take 30 msg @ (if length msg > 30 then ''...'' else [])
                          else title chat),
                lastMessage := now,
                messageCount := messageCount chat + 2\<rparr>
      else chat)"

text \<open>
  \<open>sendMessage\<close>, as the list of states after each of its state setters, in order, and the
  requests it issued. The guard returns before any setter or request. The handler is
  taken to run without another handler changing \<open>activeChat\<close> or \<open>message\<close> while it
  awaits (the input is disabled while \<open>isTyping\<close>).
\<close>

definition sendMessage_steps :: "backend \<Rightarrow> int \<Rightarrow> ChatView \<Rightarrow> ChatView list \<times> effect list" where
  "sendMessage_steps be clock s =
     (if trim (message s) = [] \<or> activeChat s = [] then ([], [])
      else
        let s1 = s\<lparr>isTyping := True\<rparr>;
            sent = [SendMessageRequest (activeChat s) (trim (message s))]
        in case sendMessage_api be (activeChat s) (trim (message s)) of
             Ok (um, am) \<Rightarrow>
               let userMessage = \<lparr>msg_id = api_id um, msg_text = api_content um,
                                  isUser = True, timestamp = DateOf (api_createdAt um)\<rparr>;
                   aiMessage = \<lparr>msg_id = api_id am, msg_text = api_content am,
                                isUser = False, timestamp = DateOf (api_createdAt am)\<rparr>;
                   s2 = s1\<lparr>chats := map (send_update (activeChat s) (message s)
                                             userMessage aiMessage (DateNow clock)) (chats s1)\<rparr>;
                   s3 = s2\<lparr>message := []\<rparr>;
                   s4 = s3\<lparr>isTyping := False\<rparr>
               in ([s1, s2, s3, s4], sent)
           | Failed e \<Rightarrow>
               let s2 = s1\<lparr>view_error := Some (or_else (response_message e) ''Failed to send message'')\<rparr>;
                   s3 = s2\<lparr>isTyping := False\<rparr>
               in ([s1, s2, s3], sent))"

definition sendMessage :: "backend \<Rightarrow> int \<Rightarrow> ChatView \<Rightarrow> ChatView \<times> effect list" where
  "sendMessage be clock s =
     (case sendMessage_steps be clock s of (steps, sent) \<Rightarrow> (last (s # steps), sent))"

subsection \<open>handleChatSelect\<close>

definition handleChatSelect ::
  "backend \<Rightarrow> bool \<Rightarrow> string \<Rightarrow> ChatView \<Rightarrow> ChatView \<times> effect list" where
  "handleChatSelect be isLargeScreen chatId s =
     (let s1 = s\<lparr>activeChat := chatId\<rparr>;
          s2 = (if \<not> isLargeScreen then s1\<lparr>isMobileSidebarOpen := False\<rparr> else s1)
      in case find (\<lambda>c. chat_id c = chatId) (chats s) of
           None \<Rightarrow> (s2, [])
         | Some chat \<Rightarrow>
             if length (messages chat) = 0 \<and> messageCount chat > 0
             then loadMessages be chatId s2
             else (s2, []))"

subsection \<open>deleteChat\<close>





subsection \<open>What the user does in the view, one action after another\<close>





section \<open>API Service (unnamed/part_002: class ApiService)\<close>

subsection \<open>Requests, responses and the browser state\<close>

text \<open>
  A request configuration of axios, with what the interceptors read or write: the path,
  the request body (kept as text; for the refresh call it is the refresh token), the
  \<open>Authorization\<close> header and the flag \<open>_retry\<close>.
\<close>

record request =
  url :: string
  req_data :: string
  authorization :: "string option"
  retry :: bool

text \<open>
  Of a response body the interceptor reads \<open>data.token\<close> and \<open>data.refreshToken\<close>
  (\<open>AuthResponse\<close> of types/api.ts). \<open>OtherBody\<close> is any body without a \<open>data\<close> object:
  reading \<open>response.data.token\<close> from it throws a TypeError.
\<close>

datatype body = AuthBody string string | OtherBody

text \<open>What comes back for a request: a response with its status, or no response at all
  (network failure, timeout), where \<open>error.response\<close> is undefined.\<close>

datatype reply = HttpResponse nat body | NetworkError

datatype outcome = Resolved reply | Rejected reply

text \<open>
  The browser state around the service: the three keys of \<open>localStorage\<close>, the last
  assignment to \<open>window.location.href\<close>, the requests put on the wire so far, and the
  POSTs of the calls of \<open>logout()\<close> that were started without being awaited: each
  as it was sent, with the answer that is on its way.
\<close>

record world =
  ls_accessToken :: "string option"
  ls_refreshToken :: "string option"
  ls_user :: "string option"
  location_href :: "string option"
  wire :: "request list"
  in_flight_logouts :: "(request \<times> reply) list"

definition pending_logouts :: "world \<Rightarrow> nat" where
  "pending_logouts w = length (in_flight_logouts w)"

text \<open>The backend answers a request knowing how many requests came before it.\<close>

type_synonym server = "nat \<Rightarrow> request \<Rightarrow> reply"

definition getToken :: "world \<Rightarrow> string option" where
  "getToken w = ls_accessToken w"

definition setToken :: "string \<Rightarrow> world \<Rightarrow> world" where
  "setToken t w = w\<lparr>ls_accessToken := Some t\<rparr>"

definition getRefreshToken :: "world \<Rightarrow> string option" where
  "getRefreshToken w = ls_refreshToken w"

definition setRefreshToken :: "string \<Rightarrow> world \<Rightarrow> world" where
  "setRefreshToken t w = w\<lparr>ls_refreshToken := Some t\<rparr>"

definition clearTokens :: "world \<Rightarrow> world" where
  "clearTokens w = w\<lparr>ls_accessToken := None, ls_refreshToken := None, ls_user := None\<rparr>"

subsection \<open>The interceptors\<close>

text \<open>The request interceptor: \<open>if (token) config.headers.Authorization = `Bearer ${token}`\<close>.\<close>

definition request_interceptor :: "world \<Rightarrow> request \<Rightarrow> request" where
  "request_interceptor w config =
     (case getToken w of
        None \<Rightarrow> config
      | Some token \<Rightarrow>
          if token = [] then config
          else config\<lparr>authorization := Some (''Bearer '' @ token)\<rparr>)"

definition refresh_request :: "string \<Rightarrow> request" where
  "refresh_request rt =
     \<lparr>url = ''/auth/refresh-token'', req_data = rt, authorization = None, retry = False\<rparr>"

definition logout_request :: request where
  "logout_request = \<lparr>url = ''/auth/logout'', req_data = [], authorization = None, retry = False\<rparr>"

text \<open>
  The first half of an un-awaited \<open>logout()\<close>: its \<open>this.api.post('/auth/logout')\<close>
  passes the request interceptor and goes on the wire when \<open>logout()\<close> is called, so
  it carries the token stored at that moment. The response is handled later
  (\<open>finish_logout\<close> below).
\<close>

definition start_logout :: "server \<Rightarrow> world \<Rightarrow> world" where
  "start_logout srv w =
     (let config1 = request_interceptor w logout_request;
          answer = srv (length (wire w)) config1
      in w\<lparr>wire := wire w @ [config1],
           in_flight_logouts := in_flight_logouts w @ [(config1, answer)]\<rparr>)"

text \<open>
  The response interceptors, applied to the answer for the request \<open>config1\<close> as it was
  sent. \<open>this_api\<close> is a call of the axios instance \<open>this.api\<close>, which the error
  handler awaits twice: for the refresh (\<open>this.refreshToken\<close> posts through
  \<open>this.api\<close>) and for the retry. Its outcome \<open>None\<close> says that the awaited promise
  has not settled.

  axios resolves a response of status 2xx and rejects any other. In the \<open>catch\<close> block
  \<open>this.logout()\<close> is called and not awaited, then the location is assigned.
\<close>

definition response_interceptors ::
  "(request \<Rightarrow> world \<Rightarrow> outcome option \<times> world) \<Rightarrow> server \<Rightarrow> request \<Rightarrow> reply \<Rightarrow> world
     \<Rightarrow> outcome option \<times> world" where
  "response_interceptors this_api srv config1 answer w1 =
     (case answer of
        NetworkError \<Rightarrow> (Some (Rejected answer), w1)
      | HttpResponse status b \<Rightarrow>
          if 200 \<le> status \<and> status < 300 then (Some (Resolved answer), w1)
          else if status = 401 \<and> \<not> retry config1 then
            (let originalRequest = config1\<lparr>retry := True\<rparr>
             in case getRefreshToken w1 of
                  None \<Rightarrow> (Some (Rejected answer), w1)
                | Some refreshToken \<Rightarrow>
                    if refreshToken = [] then (Some (Rejected answer), w1)
                    else
                      (case this_api (refresh_request refreshToken) w1 of
                         (None, w2) \<Rightarrow> (None, w2)
                       | (Some (Resolved (HttpResponse _ (AuthBody token newRefresh))), w2) \<Rightarrow>
                           this_api
                             (originalRequest\<lparr>authorization := Some (''Bearer '' @ token)\<rparr>)
                             (setRefreshToken newRefresh (setToken token w2))
                       | (Some _, w2) \<Rightarrow>
                           (Some (Rejected answer),
                            (start_logout srv w2)\<lparr>location_href := Some ''/''\<rparr>)))
          else (Some (Rejected answer), w1))"

text \<open>
  \<open>api n srv config w\<close> is one call of the instance: the request interceptor, the round
  trip, and the response interceptors, whose own calls of the instance get the fuel
  \<open>n\<close>. The fuel bounds the depth of these calls; the outcome \<open>None\<close> says that the
  promise has not settled within it. The state is returned in either case.
\<close>

primrec api :: "nat \<Rightarrow> server \<Rightarrow> request \<Rightarrow> world \<Rightarrow> outcome option \<times> world" where
  "api 0 srv config w = (None, w)"
| "api (Suc n) srv config w =
     (let config1 = request_interceptor w config;
          answer = srv (length (wire w)) config1;
          w1 = w\<lparr>wire := wire w @ [config1]\<rparr>
      in response_interceptors (api n srv) srv config1 answer w1)"

subsection \<open>logout\<close>

text \<open>
  The second half of an un-awaited \<open>logout()\<close>: the answer to the oldest POST in flight
  arrives and passes the response interceptors; once that has settled, whether resolved
  or rejected (the failure is logged and swallowed), \<open>clearTokens\<close> runs in the
  \<open>finally\<close> block. The answers are taken one at a time, in the order in which the
  POSTs were sent, each handled to its end before the next.
\<close>

definition finish_logout :: "nat \<Rightarrow> server \<Rightarrow> world \<Rightarrow> unit option \<times> world" where
  "finish_logout n srv w =
     (case in_flight_logouts w of
        [] \<Rightarrow> (Some (), w)
      | (config1, answer) # others \<Rightarrow>
          (case response_interceptors (api n srv) srv config1 answer
                  (w\<lparr>in_flight_logouts := others\<rparr>) of
             (None, w1) \<Rightarrow> (None, w1)
           | (Some _, w1) \<Rightarrow> (Some (), clearTokens w1)))"

text \<open>The outcomes of the awaited refresh call that end in the \<open>catch\<close> block of the
  response interceptor: a rejection, or a resolved response whose body has no \<open>data\<close>.\<close>

definition refresh_failed :: "outcome \<Rightarrow> bool" where
  "refresh_failed out =
     (case out of
        Resolved (HttpResponse _ (AuthBody _ _)) \<Rightarrow> False
      | _ \<Rightarrow> True)"


subsection \<open>isAuthenticated\<close>

text \<open>
  JSON values and JavaScript numbers. \<open>atob\<close>, \<open>JSON.parse\<close> and the conversion of a
  string, array or object to a number belong to the platform and are parameters; each
  of the first two throws on bad input, which is \<open>None\<close>. The numbers in a parsed value
  are the doubles that \<open>JSON.parse\<close> made of the literals.
\<close>

datatype js_number = NaN | NegInf | Fin rat | PosInf

datatype json =
    JNull
  | JBool bool
  | JNum js_number
  | JStr string
  | JArr "json list"
  | JObj "(string \<times> json) list"

record platform =
  atob :: "string \<Rightarrow> string option"
  JSON_parse :: "string \<Rightarrow> json option"
  to_number :: "json \<Rightarrow> js_number"

datatype js_exception = InvalidCharacterError | SyntaxError | TypeError

text \<open>\<open>s.split('.')\<close> for a one-character separator.\<close>

fun split_on :: "char \<Rightarrow> string \<Rightarrow> string list" where
  "split_on c [] = [[]]"
| "split_on c (x # xs) =
     (if x = c then [] # split_on c xs
      else (case split_on c xs of
              [] \<Rightarrow> [[x]]
            | p # ps \<Rightarrow> (x # p) # ps))"

text \<open>\<open>token.split('.')[1]\<close> as \<open>atob\<close> receives it: an index out of range reads
  \<open>undefined\<close>, which \<open>atob\<close> converts to the string \<open>undefined\<close>.\<close>

definition payload_segment :: "string \<Rightarrow> string" where
  "payload_segment token =
     (case split_on CHR ''.'' token of
        _ # seg # _ \<Rightarrow> seg
      | _ \<Rightarrow> ''undefined'')"

text \<open>Reading the property \<open>exp\<close>: a TypeError on \<open>null\<close>, the member of an object if it
  has one, \<open>undefined\<close> (here \<open>None\<close>) otherwise.\<close>

definition get_exp :: "json \<Rightarrow> js_exception + json option" where
  "get_exp v =
     (case v of
        JNull \<Rightarrow> Inl TypeError
      | JObj members \<Rightarrow> Inr (map_of members ''exp'')
      | _ \<Rightarrow> Inr None)"

text \<open>\<open>ToNumber\<close> of the left operand of \<open>>\<close>.\<close>

definition ToNumber :: "platform \<Rightarrow> json option \<Rightarrow> js_number" where
  "ToNumber pf v =
     (case v of
        None \<Rightarrow> NaN
      | Some JNull \<Rightarrow> Fin 0
      | Some (JBool b) \<Rightarrow> Fin (if b then 1 else 0)
      | Some (JNum x) \<Rightarrow> x
      | Some j \<Rightarrow> to_number pf j)"

text \<open>\<open>x > y\<close> on numbers: false when either side is \<open>NaN\<close>.\<close>

definition js_greater :: "js_number \<Rightarrow> js_number \<Rightarrow> bool" where
  "js_greater x y =
     (case x of
        NaN \<Rightarrow> False
      | NegInf \<Rightarrow> False
      | Fin a \<Rightarrow> (case y of NaN \<Rightarrow> False | NegInf \<Rightarrow> True | Fin b \<Rightarrow> b < a | PosInf \<Rightarrow> False)
      | PosInf \<Rightarrow> (case y of NaN \<Rightarrow> False | NegInf \<Rightarrow> True | Fin b \<Rightarrow> True | PosInf \<Rightarrow> False))"

text \<open>
  A JavaScript number is an IEEE 754 double; \<open>Fin\<close> holds the exact value of a finite
  one (the sign of zero is not kept: no comparison sees it). \<open>round_double\<close> is the
  rounding that every arithmetic operation ends with: to the nearest double, ties to the
  even significand, with 53 bits of significand, subnormals from \<open>2^-1074\<close> and
  overflow to infinity from \<open>2^1024\<close>.
\<close>

function bit_length :: "int \<Rightarrow> int" where
  "bit_length n = (if n \<le> 0 then 0 else 1 + bit_length (n div 2))"
  by pat_completeness auto
termination
  by (relation "measure nat") auto

definition pow2 :: "int \<Rightarrow> rat" where
  "pow2 k = (if 0 \<le> k then 2 ^ nat k else 1 / 2 ^ nat (- k))"

text \<open>The exponent \<open>e\<close> with \<open>2^e \<le> q < 2^(e+1)\<close>, for a positive \<open>q\<close>.\<close>

definition floor_log2 :: "rat \<Rightarrow> int" where
  "floor_log2 q =
     (case quotient_of q of
        (n, d) \<Rightarrow>
          let k = bit_length n - bit_length d
          in if pow2 k \<le> q then k else k - 1)"

definition round_half_even :: "rat \<Rightarrow> int" where
  "round_half_even q =
     (let f = \<lfloor>q\<rfloor>; r = q - of_int f
      in if r < 1 / 2 then f
         else if 1 / 2 < r then f + 1
         else if even f then f else f + 1)"

definition round_double :: "rat \<Rightarrow> js_number" where
  "round_double q =
     (if q = 0 then Fin 0
      else
        let a = \<bar>q\<bar>;
            e = floor_log2 a;
            p = max (e - 52) (- 1074);
            m = round_half_even (a / pow2 p)
        in if 1023 < e \<or> (e = 1023 \<and> m = 9007199254740992)
           then (if 0 < q then PosInf else NegInf)
           else Fin (if 0 < q then of_int m * pow2 p else - (of_int m * pow2 p)))"

text \<open>
  \<open>Date.now() / 1000\<close>. \<open>clock\<close> is \<open>Date.now()\<close>: a time value, which is an
  integral number of milliseconds of magnitude at most \<open>8.64 * 10^15\<close>, so it and 1000
  are doubles and the division rounds their exact quotient.
\<close>

definition currentTime :: "int \<Rightarrow> js_number" where
  "currentTime clock = round_double (of_int clock / 1000)"

text \<open>The body of the \<open>try\<close> block.\<close>

definition isAuthenticated_try :: "platform \<Rightarrow> int \<Rightarrow> string \<Rightarrow> js_exception + bool" where
  "isAuthenticated_try pf clock token =
     (case atob pf (payload_segment token) of
        None \<Rightarrow> Inl InvalidCharacterError
      | Some decoded \<Rightarrow>
          (case JSON_parse pf decoded of
             None \<Rightarrow> Inl SyntaxError
           | Some payload \<Rightarrow>
               (case get_exp payload of
                  Inl e \<Rightarrow> Inl e
                | Inr exp_claim \<Rightarrow>
                    Inr (js_greater (ToNumber pf exp_claim) (currentTime clock)))))"

definition isAuthenticated :: "platform \<Rightarrow> int \<Rightarrow> world \<Rightarrow> js_exception + bool" where
  "isAuthenticated pf clock w =
     (case getToken w of
        None \<Rightarrow> Inr False
      | Some token \<Rightarrow>
          if token = [] then Inr False
          else (case isAuthenticated_try pf clock token of
                  Inl _ \<Rightarrow> Inr False
                | Inr b \<Rightarrow> Inr b))"


section \<open>Concrete inputs\<close>

text \<open>A backend that accepts every call, and a view with one new, empty chat and one
  older chat whose messages are not loaded yet.\<close>

definition example_reply ::
  "string \<Rightarrow> string \<Rightarrow> (APIMessageData \<times> APIMessageData) api_result" where
  "example_reply chatId msg =
     Ok (\<lparr>api_id = ''m1'', api_content = msg, api_role = ''user'', api_createdAt = ''t1''\<rparr>,
         \<lparr>api_id = ''m2'', api_content = ''Hi there'', api_role = ''assistant'',
          api_createdAt = ''t2''\<rparr>)"

definition example_backend :: backend where
  "example_backend =
     \<lparr>sendMessage_api = example_reply,
      getMessages_api = (\<lambda>chatId. Ok [\<lparr>api_id = ''m0'', api_content = ''earlier'',
                                       api_role = ''user'', api_createdAt = ''t0''\<rparr>]),
      deleteChat_api = (\<lambda>chatId. Ok ())\<rparr>"

definition example_view :: ChatView where
  "example_view =
     \<lparr>chats = [\<lparr>chat_id = ''c1'', title = ''New Chat'', messages = [],
                 lastMessage = DateOf ''d1'', messageCount = 0\<rparr>,
               \<lparr>chat_id = ''c2'', title = ''Fever'', messages = [],
                 lastMessage = DateOf ''d2'', messageCount = 4\<rparr>],
      activeChat = ''c1'', message = ''Hello'', isTyping = False, view_error = None,
      deleteDialogOpen = False, chatToDelete = None, isMobileSidebarOpen = False\<rparr>"

text \<open>The same view after \<open>Hello\<close> was sent at clock reading 7.\<close>

definition loaded_view :: ChatView where
  "loaded_view =
     \<lparr>chats = [\<lparr>chat_id = ''c1'', title = ''Hello'',
                 messages = [\<lparr>msg_id = ''m1'', msg_text = ''Hello'', isUser = True,
                              timestamp = DateOf ''t1''\<rparr>,
                             \<lparr>msg_id = ''m2'', msg_text = ''Hi there'', isUser = False,
                              timestamp = DateOf ''t2''\<rparr>],
                 lastMessage = DateNow 7, messageCount = 2\<rparr>,
               \<lparr>chat_id = ''c2'', title = ''Fever'', messages = [],
                 lastMessage = DateOf ''d2'', messageCount = 4\<rparr>],
      activeChat = ''c1'', message = [], isTyping = False, view_error = None,
      deleteDialogOpen = False, chatToDelete = None, isMobileSidebarOpen = False\<rparr>"


text \<open>An input of white space only: a space, a tab and a line feed.\<close>

definition blank_input_view :: ChatView where
  "blank_input_view = example_view\<lparr>message := [CHR '' '', CHR 0x09, CHR 0x0A]\<rparr>"



text \<open>A backend that answers 401 to every request, the refresh call included; one that
  answers 403 to the refresh call; one that refreshes and then accepts the new token.\<close>

definition always_401 :: server where
  "always_401 = (\<lambda>k config. HttpResponse 401 OtherBody)"

definition refresh_403 :: server where
  "refresh_403 =
     (\<lambda>k config. if url config = ''/auth/refresh-token'' then HttpResponse 403 OtherBody
                   else HttpResponse 401 OtherBody)"

definition good_server :: server where
  "good_server =
     (\<lambda>k config.
        if url config = ''/auth/refresh-token''
        then HttpResponse 200 (AuthBody ''fresh'' ''refresh2'')
        else if authorization config = Some ''Bearer fresh'' then HttpResponse 200 OtherBody
        else HttpResponse 401 OtherBody)"

text \<open>A session whose access token has expired, with and without a refresh token.\<close>

definition stale_session :: world where
  "stale_session =
     \<lparr>ls_accessToken = Some ''expired'', ls_refreshToken = Some ''refresh'', ls_user = None,
      location_href = None, wire = [], in_flight_logouts = []\<rparr>"


definition profile_request :: request where
  "profile_request =
     \<lparr>url = ''/user/profile'', req_data = ''{}'', authorization = None, retry = False\<rparr>"


text \<open>The state in which the interceptor leaves \<open>stale_session\<close> when the refresh call
  is answered 403: the POST of the logout is on the wire, with the expired token.\<close>

definition after_failed_refresh :: world where
  "after_failed_refresh =
     \<lparr>ls_accessToken = Some ''expired'', ls_refreshToken = Some ''refresh'', ls_user = None,
      location_href = Some ''/'',
      wire = [\<lparr>url = ''/user/profile'', req_data = ''{}'',
               authorization = Some ''Bearer expired'', retry = False\<rparr>,
              \<lparr>url = ''/auth/refresh-token'', req_data = ''refresh'',
               authorization = Some ''Bearer expired'', retry = False\<rparr>,
              \<lparr>url = ''/auth/logout'', req_data = [],
               authorization = Some ''Bearer expired'', retry = False\<rparr>],
      in_flight_logouts =
        [(\<lparr>url = ''/auth/logout'', req_data = [],
           authorization = Some ''Bearer expired'', retry = False\<rparr>,
          HttpResponse 401 OtherBody)]\<rparr>"

text \<open>
  A platform given by a table for two tokens. The middle segment of the first decodes to
  a text that parses to an object whose \<open>exp\<close> is 2000 (seconds). The \<open>exp\<close> of the
  second is written \<open>1999999.0020000001\<close>; the nearest double is
  \<open>8589930305622639 / 2^32\<close>.
\<close>

definition table_platform :: platform where
  "table_platform =
     \<lparr>atob = (\<lambda>s. if s = ''PAYLOAD'' then Some ''{exp:2000}''
                  else if s = ''PAYLOAD2'' then Some ''{exp:1999999.0020000001}''
                  else None),
      JSON_parse =
        (\<lambda>s. if s = ''{exp:2000}'' then Some (JObj [(''exp'', JNum (Fin 2000))])
             else if s = ''{exp:1999999.0020000001}''
             then Some (JObj [(''exp'', JNum (Fin (8589930305622639 / 4294967296)))])
             else None),
      to_number = (\<lambda>j. NaN)\<rparr>"

definition signed_in :: world where
  "signed_in = stale_session\<lparr>ls_accessToken := Some ''HEADER.PAYLOAD.SIGNATURE''\<rparr>"

definition signed_in_fraction :: world where
  "signed_in_fraction = stale_session\<lparr>ls_accessToken := Some ''HEADER.PAYLOAD2.SIGNATURE''\<rparr>"

section \<open>Properties of the Auth Flow View\<close>

text \<open>
  Claim C7. Whatever is typed into the OTP field, the stored OTP is the first six
  characters of the input with every non-digit removed; so it holds digits only and at
  most six of them. \<open>handleVerifyOtp\<close>, from any form state, issues its request exactly
  when the stored OTP is six digits, and then that one request only.
\<close>

theorem otp_field_keeps_six_digits:
  "otp (otp_onChange v s) = take 6 (filter is_digit v)
   \<and> list_all is_digit (otp (otp_onChange v s))
   \<and> length (otp (otp_onChange v s)) \<le> 6
   \<and> (fst (snd (handleVerifyOtp verifyOtp t)) \<noteq> [])
       = (length (otp t) = 6 \<and> list_all is_digit (otp t))
   \<and> (fst (snd (handleVerifyOtp verifyOtp t)) = []
       \<or> fst (snd (handleVerifyOtp verifyOtp t))
          = [\<lparr>vq_email = email t, vq_otp = otp t, vq_otpId = otpId t\<rparr>])"
proof -
  have digits: "list_all is_digit (take 6 (filter is_digit v))"
    by (auto simp: list_all_iff dest: in_set_takeD)
  have requests: "fst (snd (handleVerifyOtp verifyOtp t)) =
      (if validators_otp (otp t)
       then [\<lparr>vq_email = email t, vq_otp = otp t, vq_otpId = otpId t\<rparr>] else [])"
    by (simp add: handleVerifyOtp_def Let_def split: api_result.split)
  have valid: "validators_otp (otp t) = (length (otp t) = 6 \<and> list_all is_digit (otp t))"
    by (auto simp: validators_otp_def)
  show ?thesis
    using digits by (simp add: otp_onChange_def requests valid)
qed

theorem otp_field_keeps_six_digits_witness:
  "otp (otp_onChange ''12a3-4567x'' initialFormState) = ''123456''
   \<and> fst (snd (handleVerifyOtp (\<lambda>q. Failed \<lparr>response_message = None, error_message = None\<rparr>)
        (otp_onChange ''12a3-4567x'' initialFormState))) \<noteq> []
   \<and> fst (snd (handleVerifyOtp (\<lambda>q. Failed \<lparr>response_message = None, error_message = None\<rparr>)
        (otp_onChange ''12a3'' initialFormState))) = []"
  using otp_field_keeps_six_digits [of "''12a3-4567x''" initialFormState
          "\<lambda>q. Failed \<lparr>response_message = None, error_message = None\<rparr>"
          "otp_onChange ''12a3-4567x'' initialFormState"]
        otp_field_keeps_six_digits [of "''12a3''" initialFormState
          "\<lambda>q. Failed \<lparr>response_message = None, error_message = None\<rparr>"
          "otp_onChange ''12a3'' initialFormState"]
  by (simp add: is_digit_def otp_onChange_def)

text \<open>
  Claim C8. Each of the three mode switches (the toggle between signin and signup, which
  also leads from forgot back to signin; "Forgot Password?"; "Back to Sign In") leaves
  every field of the form at its initial value and sets the mode to its target. The
  initial values are the empty string and \<open>False\<close> throughout.
\<close>

theorem mode_switch_resets_fields:
  "(handleModeToggle s)\<lparr>mode := signin\<rparr> = initialFormState
   \<and> mode (handleModeToggle s) = (if mode s = signin then signup else signin)
   \<and> (handleForgotPassword s)\<lparr>mode := signin\<rparr> = initialFormState
   \<and> mode (handleForgotPassword s) = forgot
   \<and> (backToSignIn s)\<lparr>mode := signin\<rparr> = initialFormState
   \<and> mode (backToSignIn s) = signin
   \<and> initialFormState
       = \<lparr>email = [], otp = [], password = [], newPassword = [], mode = signin,
          otpSent = False, otpId = [], verificationToken = [], loading = False,
          error = [], success = [], showSnackbar = False\<rparr>"
  by (simp add: handleModeToggle_def handleForgotPassword_def backToSignIn_def
      initialFormState_def)

section \<open>Properties of the Chat View\<close>

subsection \<open>What the handlers compute on the paths the claims are about\<close>

lemma trim_Hello: "trim ''Hello'' = ''Hello''"
  by (simp add: trim_def is_space_def)

lemma sendMessage_steps_ok:
  assumes "trim (message s) \<noteq> []" and "activeChat s \<noteq> []"
    and "sendMessage_api be (activeChat s) (trim (message s)) = Ok (um, am)"
  shows "sendMessage_steps be clock s =
     ([s\<lparr>isTyping := True\<rparr>,
       s\<lparr>isTyping := True,
         chats := map (send_update (activeChat s) (message s)
            \<lparr>msg_id = api_id um, msg_text = api_content um, isUser = True,
             timestamp = DateOf (api_createdAt um)\<rparr>
            \<lparr>msg_id = api_id am, msg_text = api_content am, isUser = False,
             timestamp = DateOf (api_createdAt am)\<rparr> (DateNow clock)) (chats s)\<rparr>,
       s\<lparr>isTyping := True,
         chats := map (send_update (activeChat s) (message s)
            \<lparr>msg_id = api_id um, msg_text = api_content um, isUser = True,
             timestamp = DateOf (api_createdAt um)\<rparr>
            \<lparr>msg_id = api_id am, msg_text = api_content am, isUser = False,
             timestamp = DateOf (api_createdAt am)\<rparr> (DateNow clock)) (chats s),
         message := []\<rparr>,
       s\<lparr>isTyping := False,
         chats := map (send_update (activeChat s) (message s)
            \<lparr>msg_id = api_id um, msg_text = api_content um, isUser = True,
             timestamp = DateOf (api_createdAt um)\<rparr>
            \<lparr>msg_id = api_id am, msg_text = api_content am, isUser = False,
             timestamp = DateOf (api_createdAt am)\<rparr> (DateNow clock)) (chats s),
         message := []\<rparr>],
      [SendMessageRequest (activeChat s) (trim (message s))])"
  using assms by (simp add: sendMessage_steps_def Let_def)

lemma sendMessage_ok_chats:
  assumes "trim (message s) \<noteq> []" and "activeChat s \<noteq> []"
    and "sendMessage_api be (activeChat s) (trim (message s)) = Ok (um, am)"
  shows "chats (fst (sendMessage be clock s)) =
     map (send_update (activeChat s) (message s)
            \<lparr>msg_id = api_id um, msg_text = api_content um, isUser = True,
             timestamp = DateOf (api_createdAt um)\<rparr>
            \<lparr>msg_id = api_id am, msg_text = api_content am, isUser = False,
             timestamp = DateOf (api_createdAt am)\<rparr> (DateNow clock)) (chats s)"
  by (simp add: sendMessage_def sendMessage_steps_ok [OF assms])



lemma example_send_hypotheses:
  "trim (message example_view) \<noteq> []"
  "activeChat example_view \<noteq> []"
  "sendMessage_api example_backend (activeChat example_view) (trim (message example_view))
      = Ok (\<lparr>api_id = ''m1'', api_content = ''Hello'', api_role = ''user'',
             api_createdAt = ''t1''\<rparr>,
            \<lparr>api_id = ''m2'', api_content = ''Hi there'', api_role = ''assistant'',
             api_createdAt = ''t2''\<rparr>)"
  by (simp_all add: example_view_def example_backend_def example_reply_def trim_Hello)


lemma loadMessages_effects: "snd (loadMessages be chatId s) = [GetMessagesRequest chatId]"
  by (simp add: loadMessages_def split: api_result.split)

lemma loadMessages_activeChat: "activeChat (fst (loadMessages be chatId s)) = activeChat s"
  by (simp add: loadMessages_def split: api_result.split)













subsection \<open>Sending a message\<close>

text \<open>
  Claim C3. When the guard of \<open>sendMessage\<close> passes and the backend returns the pair of
  messages, every chat with the active id gets the user message and then the assistant
  message appended to its list, its \<open>messageCount\<close> raised by exactly 2 and its
  \<open>lastMessage\<close> set to the current time; every chat with another id is unchanged, and
  the list keeps its length and order. The update is one step: each state that the
  handler passes through has either the old list of chats or the final one. One request
  was issued.
\<close>

theorem send_appends_pair:
  assumes "trim (message s) \<noteq> []" and "activeChat s \<noteq> []"
    and "sendMessage_api be (activeChat s) (trim (message s)) = Ok (um, am)"
  shows "length (chats (fst (sendMessage be clock s))) = length (chats s)
    \<and> (\<forall>i < length (chats s). chat_id (chats s ! i) = activeChat s \<longrightarrow>
          messages (chats (fst (sendMessage be clock s)) ! i)
            = messages (chats s ! i)
              @ [\<lparr>msg_id = api_id um, msg_text = api_content um, isUser = True,
                   timestamp = DateOf (api_createdAt um)\<rparr>,
                 \<lparr>msg_id = api_id am, msg_text = api_content am, isUser = False,
                   timestamp = DateOf (api_createdAt am)\<rparr>]
          \<and> messageCount (chats (fst (sendMessage be clock s)) ! i)
              = messageCount (chats s ! i) + 2
          \<and> lastMessage (chats (fst (sendMessage be clock s)) ! i) = DateNow clock
          \<and> chat_id (chats (fst (sendMessage be clock s)) ! i) = chat_id (chats s ! i))
    \<and> (\<forall>i < length (chats s). chat_id (chats s ! i) \<noteq> activeChat s \<longrightarrow>
          chats (fst (sendMessage be clock s)) ! i = chats s ! i)
    \<and> (\<forall>st \<in> set (fst (sendMessage_steps be clock s)).
          chats st = chats s \<or> chats st = chats (fst (sendMessage be clock s)))
    \<and> snd (sendMessage be clock s) = [SendMessageRequest (activeChat s) (trim (message s))]"
proof -
  note chats' = sendMessage_ok_chats [OF assms, of clock]
  have atomic: "\<forall>st \<in> set (fst (sendMessage_steps be clock s)).
          chats st = chats s \<or> chats st = chats (fst (sendMessage be clock s))"
    by (simp add: chats' sendMessage_steps_ok [OF assms])
  have sent: "snd (sendMessage be clock s) = [SendMessageRequest (activeChat s) (trim (message s))]"
    by (simp add: sendMessage_def sendMessage_steps_ok [OF assms])
  show ?thesis
    using atomic sent by (simp add: chats' send_update_def)
qed

theorem send_appends_pair_witness:
  "messages (chats (fst (sendMessage example_backend 7 example_view)) ! 0)
     = [\<lparr>msg_id = ''m1'', msg_text = ''Hello'', isUser = True, timestamp = DateOf ''t1''\<rparr>,
        \<lparr>msg_id = ''m2'', msg_text = ''Hi there'', isUser = False, timestamp = DateOf ''t2''\<rparr>]
   \<and> messageCount (chats (fst (sendMessage example_backend 7 example_view)) ! 0) = 2
   \<and> lastMessage (chats (fst (sendMessage example_backend 7 example_view)) ! 0) = DateNow 7
   \<and> chats (fst (sendMessage example_backend 7 example_view)) ! 1 = chats example_view ! 1
   \<and> length (chats (fst (sendMessage example_backend 7 example_view))) = 2"
proof -
  note fact = send_appends_pair [OF example_send_hypotheses, of 7]
  have first: "0 < length (chats example_view)"
    "chat_id (chats example_view ! 0) = activeChat example_view"
    "messages (chats example_view ! 0) = []" "messageCount (chats example_view ! 0) = 0"
    by (simp_all add: example_view_def)
  have second: "1 < length (chats example_view)"
    "chat_id (chats example_view ! 1) \<noteq> activeChat example_view"
    by (simp_all add: example_view_def)
  have len: "length (chats example_view) = 2"
    by (simp add: example_view_def)
  from fact have a: "\<forall>i < length (chats example_view).
      chat_id (chats example_view ! i) = activeChat example_view \<longrightarrow>
          messages (chats (fst (sendMessage example_backend 7 example_view)) ! i)
            = messages (chats example_view ! i)
              @ [\<lparr>msg_id = ''m1'', msg_text = ''Hello'', isUser = True, timestamp = DateOf ''t1''\<rparr>,
                 \<lparr>msg_id = ''m2'', msg_text = ''Hi there'', isUser = False, timestamp = DateOf ''t2''\<rparr>]
          \<and> messageCount (chats (fst (sendMessage example_backend 7 example_view)) ! i)
              = messageCount (chats example_view ! i) + 2
          \<and> lastMessage (chats (fst (sendMessage example_backend 7 example_view)) ! i) = DateNow 7
          \<and> chat_id (chats (fst (sendMessage example_backend 7 example_view)) ! i)
              = chat_id (chats example_view ! i)"
    and b: "\<forall>i < length (chats example_view).
      chat_id (chats example_view ! i) \<noteq> activeChat example_view \<longrightarrow>
          chats (fst (sendMessage example_backend 7 example_view)) ! i = chats example_view ! i"
    and c: "length (chats (fst (sendMessage example_backend 7 example_view)))
      = length (chats example_view)"
    by simp_all
  show ?thesis
    using a [rule_format, OF first(1) first(2)] b [rule_format, OF second] c
    by (simp add: first len)
qed

text \<open>
  Claim C10. If the input is empty once trimmed, or no chat is active, \<open>sendMessage\<close>
  returns the state it was given, passes through no intermediate state and issues no
  request.
\<close>

theorem send_guard_no_effect:
  assumes "trim (message s) = [] \<or> activeChat s = []"
  shows "sendMessage be clock s = (s, []) \<and> sendMessage_steps be clock s = ([], [])"
  using assms by (simp add: sendMessage_def sendMessage_steps_def)

theorem send_guard_no_effect_witness:
  "sendMessage example_backend 7 blank_input_view = (blank_input_view, [])
   \<and> sendMessage example_backend 7 (example_view\<lparr>activeChat := []\<rparr>)
       = (example_view\<lparr>activeChat := []\<rparr>, [])"
proof -
  have h1: "trim (message blank_input_view) = [] \<or> activeChat blank_input_view = []"
    by (simp add: blank_input_view_def trim_def is_space_def)
  have h2: "trim (message (example_view\<lparr>activeChat := []\<rparr>)) = []
            \<or> activeChat (example_view\<lparr>activeChat := []\<rparr>) = []"
    by simp
  show ?thesis
    using send_guard_no_effect [OF h1, of example_backend 7]
      send_guard_no_effect [OF h2, of example_backend 7]
    by simp
qed





subsection \<open>Selecting a chat\<close>

text \<open>
  Claim C5. Selecting a chat that is in the list issues the request for its messages if
  and only if its local message list is empty and its \<open>messageCount\<close> is positive, and
  issues nothing else. Selecting a chat whose messages are loaded issues no request and
  leaves the list of chats, hence its messages, unchanged. The selected chat becomes the
  active one.
\<close>

theorem select_fetches_iff_unloaded:
  assumes "find (\<lambda>c. chat_id c = chatId) (chats s) = Some chat"
  shows "(GetMessagesRequest chatId \<in> set (snd (handleChatSelect be isLargeScreen chatId s)))
           = (messages chat = [] \<and> 0 < messageCount chat)
    \<and> (snd (handleChatSelect be isLargeScreen chatId s) = []
        \<or> snd (handleChatSelect be isLargeScreen chatId s) = [GetMessagesRequest chatId])
    \<and> (messages chat \<noteq> [] \<longrightarrow>
          snd (handleChatSelect be isLargeScreen chatId s) = []
          \<and> chats (fst (handleChatSelect be isLargeScreen chatId s)) = chats s)
    \<and> activeChat (fst (handleChatSelect be isLargeScreen chatId s)) = chatId"
  using assms
  by (simp add: handleChatSelect_def Let_def loadMessages_effects loadMessages_activeChat)

theorem select_fetches_iff_unloaded_witness:
  "snd (handleChatSelect example_backend True ''c1'' loaded_view) = []
   \<and> chats (fst (handleChatSelect example_backend True ''c1'' loaded_view)) = chats loaded_view
   \<and> snd (handleChatSelect example_backend True ''c2'' loaded_view) = [GetMessagesRequest ''c2'']"
proof -
  have f1: "find (\<lambda>c. chat_id c = ''c1'') (chats loaded_view) = Some (chats loaded_view ! 0)"
    by (simp add: loaded_view_def)
  have f2: "find (\<lambda>c. chat_id c = ''c2'') (chats loaded_view) = Some (chats loaded_view ! 1)"
    by (simp add: loaded_view_def)
  have m1: "messages (chats loaded_view ! 0) \<noteq> []"
    by (simp add: loaded_view_def)
  have m2: "messages (chats loaded_view ! 1) = [] \<and> 0 < messageCount (chats loaded_view ! 1)"
    by (simp add: loaded_view_def)
  from select_fetches_iff_unloaded [OF f1, of example_backend True] m1
  have a: "snd (handleChatSelect example_backend True ''c1'' loaded_view) = []
     \<and> chats (fst (handleChatSelect example_backend True ''c1'' loaded_view)) = chats loaded_view"
    by blast
  from select_fetches_iff_unloaded [OF f2, of example_backend True] m2
  have b: "snd (handleChatSelect example_backend True ''c2'' loaded_view) = [GetMessagesRequest ''c2'']"
    by (metis empty_iff list.set(1))
  from a b show ?thesis by blast
qed

subsection \<open>Deleting a chat\<close>







section \<open>Properties of the API Service\<close>

subsection \<open>What one call of the instance does\<close>

lemma request_interceptor_retry [simp]: "retry (request_interceptor w config) = retry config"
  by (simp add: request_interceptor_def split: option.split)

lemma request_interceptor_url [simp]: "url (request_interceptor w config) = url config"
  by (simp add: request_interceptor_def split: option.split)

lemma request_interceptor_wire [simp]:
  "request_interceptor (w\<lparr>wire := x\<rparr>) config = request_interceptor w config"
  by (simp add: request_interceptor_def getToken_def)

lemma request_interceptor_in_flight [simp]:
  "request_interceptor (w\<lparr>in_flight_logouts := x\<rparr>) config = request_interceptor w config"
  by (simp add: request_interceptor_def getToken_def)

lemma api_Suc:
  "api (Suc n) srv config w =
     response_interceptors (api n srv) srv (request_interceptor w config)
       (srv (length (wire w)) (request_interceptor w config))
       (w\<lparr>wire := wire w @ [request_interceptor w config]\<rparr>)"
  by (simp add: Let_def)

lemma response_unauthorized_refresh:
  assumes "\<not> retry config1" and "ls_refreshToken w1 = Some rt" and "rt \<noteq> []"
  shows "response_interceptors this_api srv config1 (HttpResponse 401 b) w1 =
     (case this_api (refresh_request rt) w1 of
        (None, w2) \<Rightarrow> (None, w2)
      | (Some (Resolved (HttpResponse _ (AuthBody token newRefresh))), w2) \<Rightarrow>
          this_api (config1\<lparr>retry := True, authorization := Some (''Bearer '' @ token)\<rparr>)
            (setRefreshToken newRefresh (setToken token w2))
      | (Some _, w2) \<Rightarrow>
          (Some (Rejected (HttpResponse 401 b)),
           (start_logout srv w2)\<lparr>location_href := Some ''/''\<rparr>))"
  using assms
  by (simp add: response_interceptors_def Let_def getRefreshToken_def
      split: prod.split option.split outcome.split reply.split body.split)

lemma response_unauthorized_no_refresh:
  assumes "\<not> retry config1" and "\<not> truthy (getRefreshToken w1)"
  shows "response_interceptors this_api srv config1 (HttpResponse 401 b) w1 =
     (Some (Rejected (HttpResponse 401 b)), w1)"
proof (cases "ls_refreshToken w1")
  case None
  with assms(1) show ?thesis
    by (simp add: response_interceptors_def Let_def getRefreshToken_def)
next
  case (Some rt)
  with assms(2) have "rt = []" by (simp add: truthy_def getRefreshToken_def)
  with Some assms(1) show ?thesis
    by (simp add: response_interceptors_def Let_def getRefreshToken_def)
qed

lemma response_without_refresh:
  assumes "(\<forall>b. answer \<noteq> HttpResponse 401 b) \<or> retry config1"
  shows "\<exists>out. response_interceptors this_api srv config1 answer w1 = (Some out, w1)"
proof (cases answer)
  case NetworkError
  then show ?thesis by (simp add: response_interceptors_def)
next
  case (HttpResponse status b)
  with assms have "status \<noteq> 401 \<or> retry config1" by auto
  with HttpResponse show ?thesis by (auto simp: response_interceptors_def)
qed

lemma api_unauthorized_refresh:
  assumes "srv (length (wire w)) (request_interceptor w config) = HttpResponse 401 b"
    and "\<not> retry config" and "ls_refreshToken w = Some rt" and "rt \<noteq> []"
  shows "api (Suc n) srv config w =
     (case api n srv (refresh_request rt) (w\<lparr>wire := wire w @ [request_interceptor w config]\<rparr>) of
        (None, w2) \<Rightarrow> (None, w2)
      | (Some (Resolved (HttpResponse _ (AuthBody token newRefresh))), w2) \<Rightarrow>
          api n srv
            ((request_interceptor w config)\<lparr>retry := True, authorization := Some (''Bearer '' @ token)\<rparr>)
            (setRefreshToken newRefresh (setToken token w2))
      | (Some _, w2) \<Rightarrow>
          (Some (Rejected (HttpResponse 401 b)),
           (start_logout srv w2)\<lparr>location_href := Some ''/''\<rparr>))"
proof -
  have r: "\<not> retry (request_interceptor w config)" using assms(2) by simp
  have t: "ls_refreshToken (w\<lparr>wire := wire w @ [request_interceptor w config]\<rparr>) = Some rt"
    using assms(3) by simp
  show ?thesis
    by (simp only: api_Suc assms(1) response_unauthorized_refresh [OF r t assms(4)])
qed

lemma api_unauthorized_no_refresh:
  assumes "srv (length (wire w)) (request_interceptor w config) = HttpResponse 401 b"
    and "\<not> retry config" and "\<not> truthy (getRefreshToken w)"
  shows "api (Suc n) srv config w =
     (Some (Rejected (HttpResponse 401 b)), w\<lparr>wire := wire w @ [request_interceptor w config]\<rparr>)"
proof -
  have r: "\<not> retry (request_interceptor w config)" using assms(2) by simp
  have t: "\<not> truthy (getRefreshToken (w\<lparr>wire := wire w @ [request_interceptor w config]\<rparr>))"
    using assms(3) by (simp add: getRefreshToken_def)
  show ?thesis
    by (simp only: api_Suc assms(1) response_unauthorized_no_refresh [OF r t])
qed

lemma api_retried_no_refresh:
  assumes "srv (length (wire w)) (request_interceptor w config) = HttpResponse status b"
    and "retry config" and "\<not> (200 \<le> status \<and> status < 300)"
  shows "api (Suc n) srv config w =
     (Some (Rejected (HttpResponse status b)), w\<lparr>wire := wire w @ [request_interceptor w config]\<rparr>)"
  using assms by (simp add: Let_def response_interceptors_def)

text \<open>
  When the backend never answers 401 to the refresh call, every call settles, with at
  most three requests on the wire, at most one of them a refresh started by it.
\<close>

lemma api_single_round_trip:
  assumes "(\<forall>b. srv (length (wire w)) (request_interceptor w config) \<noteq> HttpResponse 401 b)
           \<or> retry config"
  shows "\<exists>out. api (Suc n) srv config w
           = (Some out, w\<lparr>wire := wire w @ [request_interceptor w config]\<rparr>)"
proof -
  from assms have "(\<forall>b. srv (length (wire w)) (request_interceptor w config) \<noteq> HttpResponse 401 b)
           \<or> retry (request_interceptor w config)" by simp
  from response_without_refresh [OF this] show ?thesis
    by (simp only: api_Suc)
qed

lemma start_logout_location [simp]: "location_href (start_logout srv w) = location_href w"
  by (simp add: start_logout_def Let_def)

lemma start_logout_wire:
  "wire (start_logout srv w) = wire w @ [request_interceptor w logout_request]"
  by (simp add: start_logout_def Let_def)

lemma start_logout_storage [simp]:
  "ls_accessToken (start_logout srv w) = ls_accessToken w"
  "ls_refreshToken (start_logout srv w) = ls_refreshToken w"
  "ls_user (start_logout srv w) = ls_user w"
  by (simp_all add: start_logout_def Let_def)

lemma api_settles_unless_refresh_unauthorized:
  assumes "\<And>k c b. url c = ''/auth/refresh-token'' \<Longrightarrow> srv k c \<noteq> HttpResponse 401 b"
  shows "\<exists>out w'. api (Suc (Suc n)) srv config w = (Some out, w')
           \<and> length (wire w') \<le> length (wire w) + 3
           \<and> length (filter (\<lambda>r. url r = ''/auth/refresh-token'') (wire w'))
               \<le> Suc (length (filter (\<lambda>r. url r = ''/auth/refresh-token'') (wire w)))
                 + (if url config = ''/auth/refresh-token'' then 2 else 0)"
proof (cases "(\<forall>b. srv (length (wire w)) (request_interceptor w config) \<noteq> HttpResponse 401 b)
           \<or> retry config")
  case True
  from api_single_round_trip [where srv = srv and w = w and config = config, OF True, of "Suc n"]
  show ?thesis by auto
next
  case False
  then obtain b where a: "srv (length (wire w)) (request_interceptor w config) = HttpResponse 401 b"
    and nr: "\<not> retry config" by auto
  let ?w1 = "w\<lparr>wire := wire w @ [request_interceptor w config]\<rparr>"
  show ?thesis
  proof (cases "truthy (getRefreshToken w)")
    case False
    from api_unauthorized_no_refresh [where srv = srv, OF a nr False, of "Suc n"]
    show ?thesis by auto
  next
    case True
    then obtain rt where rt: "ls_refreshToken w = Some rt" "rt \<noteq> []"
      by (auto simp: truthy_def getRefreshToken_def split: option.splits)
    have "\<forall>b. srv (length (wire ?w1)) (request_interceptor ?w1 (refresh_request rt))
           \<noteq> HttpResponse 401 b"
      using assms by (simp add: refresh_request_def)
    then obtain out where r: "api (Suc n) srv (refresh_request rt) ?w1
        = (Some out, ?w1\<lparr>wire := wire ?w1 @ [request_interceptor ?w1 (refresh_request rt)]\<rparr>)"
      using api_single_round_trip [of srv ?w1 "refresh_request rt" n] by blast
    let ?w2 = "?w1\<lparr>wire := wire ?w1 @ [request_interceptor ?w1 (refresh_request rt)]\<rparr>"
    note step = api_unauthorized_refresh [where srv = srv, OF a nr rt, of "Suc n"]
    show ?thesis
    proof (cases "refresh_failed out")
      case True
      then have "api (Suc (Suc n)) srv config w =
          (Some (Rejected (HttpResponse 401 b)),
           (start_logout srv ?w2)\<lparr>location_href := Some ''/''\<rparr>)"
        by (simp only: step r)
           (simp add: refresh_failed_def split: outcome.splits reply.splits body.splits)
      then show ?thesis
        by (auto simp: refresh_request_def start_logout_wire logout_request_def)
    next
      case False
      then obtain st token newRefresh where
        out: "out = Resolved (HttpResponse st (AuthBody token newRefresh))"
        by (auto simp: refresh_failed_def split: outcome.splits reply.splits body.splits)
      let ?c = "(request_interceptor w config)\<lparr>retry := True,
                   authorization := Some (''Bearer '' @ token)\<rparr>"
      let ?w3 = "setRefreshToken newRefresh (setToken token ?w2)"
      have "retry ?c" by simp
      then obtain out' where r': "api (Suc n) srv ?c ?w3
          = (Some out', ?w3\<lparr>wire := wire ?w3 @ [request_interceptor ?w3 ?c]\<rparr>)"
        using api_single_round_trip [of srv ?w3 ?c n] by blast
      have "api (Suc (Suc n)) srv config w
          = (Some out', ?w3\<lparr>wire := wire ?w3 @ [request_interceptor ?w3 ?c]\<rparr>)"
        by (simp only: step r out prod.case option.case outcome.case reply.case body.case r')
      then show ?thesis
        by (auto simp: refresh_request_def setToken_def setRefreshToken_def)
    qed
  qed
qed

lemma api_keeps_redirect:
  "location_href w = Some ''/'' \<Longrightarrow> location_href (snd (api n srv config w)) = Some ''/''"
proof (induction n arbitrary: config w)
  case 0
  then show ?case by simp
next
  case (Suc n)
  show ?case
    using Suc.prems
    apply (simp add: Let_def response_interceptors_def getRefreshToken_def setToken_def
        setRefreshToken_def
        split: reply.split option.split prod.split outcome.split body.split)
    apply (intro allI impI conjI)
    apply (auto dest!: arg_cong [where f = snd] simp: Suc.IH)
    done
qed

text \<open>With a backend that renews the token, the expired request is sent, the token is
  refreshed once and the request is sent once more, marked as retried.\<close>

lemma refresh_then_retry_example:
  "api 3 good_server profile_request stale_session =
     (Some (Resolved (HttpResponse 200 OtherBody)),
      \<lparr>ls_accessToken = Some ''fresh'', ls_refreshToken = Some ''refresh2'', ls_user = None,
       location_href = None,
       wire = [\<lparr>url = ''/user/profile'', req_data = ''{}'',
                authorization = Some ''Bearer expired'', retry = False\<rparr>,
               \<lparr>url = ''/auth/refresh-token'', req_data = ''refresh'',
                authorization = Some ''Bearer expired'', retry = False\<rparr>,
               \<lparr>url = ''/user/profile'', req_data = ''{}'',
                authorization = Some ''Bearer fresh'', retry = True\<rparr>],
       in_flight_logouts = []\<rparr>)"
  by (simp add: numeral_3_eq_3 good_server_def profile_request_def stale_session_def Let_def
      response_interceptors_def
      request_interceptor_def getToken_def getRefreshToken_def refresh_request_def
      setToken_def setRefreshToken_def)

subsection \<open>The refresh loop\<close>

lemma refresh_loop:
  assumes "ls_refreshToken w = Some rt" and "rt \<noteq> []" and "\<not> retry config"
  shows "api (Suc n) always_401 config w =
     (None, w\<lparr>wire := wire w @ request_interceptor w config
                  # replicate n (request_interceptor w (refresh_request rt))\<rparr>)"
  using assms
proof (induction n arbitrary: config w)
  case 0
  have a: "always_401 (length (wire w)) (request_interceptor w config) = HttpResponse 401 OtherBody"
    by (simp add: always_401_def)
  show ?case
    by (simp only: api_unauthorized_refresh [where srv = always_401,
          OF a "0.prems"(3) "0.prems"(1) "0.prems"(2)] api.simps(1)) simp
next
  case (Suc n)
  have a: "always_401 (length (wire w)) (request_interceptor w config) = HttpResponse 401 OtherBody"
    by (simp add: always_401_def)
  let ?w1 = "w\<lparr>wire := wire w @ [request_interceptor w config]\<rparr>"
  have r: "\<not> retry (refresh_request rt)"
    by (simp add: refresh_request_def)
  have t: "ls_refreshToken ?w1 = Some rt"
    using Suc.prems(1) by simp
  have ih: "api (Suc n) always_401 (refresh_request rt) ?w1 =
     (None, ?w1\<lparr>wire := wire ?w1 @ request_interceptor ?w1 (refresh_request rt)
                  # replicate n (request_interceptor ?w1 (refresh_request rt))\<rparr>)"
    by (rule Suc.IH [OF t Suc.prems(2) r])
  show ?case
    by (simp only: api_unauthorized_refresh [where srv = always_401, OF a Suc.prems(3) Suc.prems(1) Suc.prems(2)] ih)
       (simp add: replicate_app_Cons_same)
qed

text \<open>
  Claim C1 asks that one request leads to at most one refresh and that no endless retry
  is possible. The flag \<open>_retry\<close> does guard the request that is sent again
  (\<open>api_retried_no_refresh\<close>), and the claim holds as long as the refresh call is not
  itself answered 401 (\<open>api_settles_unless_refresh_unauthorized\<close>). But the refresh
  call is posted through the same instance with a fresh configuration, so a 401 for it
  starts another refresh. Against a backend that answers 401 to every request, with a
  refresh token stored, the call never settles whatever the fuel; with fuel \<open>n + 1\<close>
  it has put \<open>n\<close> refresh requests on the wire for the one original request, and it
  never reaches the logout or the redirect.
\<close>

theorem refresh_of_refresh_never_settles:
  "fst (api n always_401 profile_request stale_session) = None
   \<and> length (filter (\<lambda>r. url r = ''/auth/refresh-token'')
        (wire (snd (api (Suc n) always_401 profile_request stale_session)))) = n
   \<and> pending_logouts (snd (api n always_401 profile_request stale_session)) = 0
   \<and> location_href (snd (api n always_401 profile_request stale_session)) = None"
proof -
  have p: "ls_refreshToken stale_session = Some ''refresh''" "''refresh'' \<noteq> []"
      "\<not> retry profile_request"
    by (simp_all add: stale_session_def profile_request_def)
  note loop = refresh_loop [OF p]
  have z: "api 0 always_401 profile_request stale_session = (None, stale_session)"
    by simp
  have first: "fst (api n always_401 profile_request stale_session) = None"
    by (cases n) (simp_all only: z loop fst_conv)
  have rest: "pending_logouts (snd (api n always_401 profile_request stale_session)) = 0
     \<and> location_href (snd (api n always_401 profile_request stale_session)) = None"
    by (cases n) (simp_all only: z loop, simp_all add: stale_session_def pending_logouts_def)
  have count: "length (filter (\<lambda>r. url r = ''/auth/refresh-token'')
        (wire (snd (api (Suc n) always_401 profile_request stale_session)))) = n"
    by (simp only: loop) (simp add: stale_session_def profile_request_def refresh_request_def)
  from first rest count show ?thesis by blast
qed

subsection \<open>A 401 without a refresh token, and a refresh that fails\<close>







text \<open>
  When the POST of that logout is itself answered 401, its handling goes through the
  interceptor once more: the refresh is refused again and a second \<open>logout()\<close> is started
  in the \<open>catch\<close> block, before the first one reaches \<open>clearTokens\<close>. The second POST is
  therefore sent with the token that is still stored.
\<close>

lemma second_logout_carries_the_stored_token:
  "finish_logout 1 refresh_403 after_failed_refresh =
    (Some (),
     \<lparr>ls_accessToken = None, ls_refreshToken = None, ls_user = None,
      location_href = Some ''/'',
      wire = [\<lparr>url = ''/user/profile'', req_data = ''{}'',
               authorization = Some ''Bearer expired'', retry = False\<rparr>,
              \<lparr>url = ''/auth/refresh-token'', req_data = ''refresh'',
               authorization = Some ''Bearer expired'', retry = False\<rparr>,
              \<lparr>url = ''/auth/logout'', req_data = [],
               authorization = Some ''Bearer expired'', retry = False\<rparr>,
              \<lparr>url = ''/auth/refresh-token'', req_data = ''refresh'',
               authorization = Some ''Bearer expired'', retry = False\<rparr>,
              \<lparr>url = ''/auth/logout'', req_data = [],
               authorization = Some ''Bearer expired'', retry = False\<rparr>],
      in_flight_logouts =
        [(\<lparr>url = ''/auth/logout'', req_data = [],
           authorization = Some ''Bearer expired'', retry = False\<rparr>,
          HttpResponse 401 OtherBody)]\<rparr>)"
  by (simp add: finish_logout_def after_failed_refresh_def response_interceptors_def
      refresh_403_def logout_request_def Let_def clearTokens_def start_logout_def
      request_interceptor_def getToken_def getRefreshToken_def refresh_request_def)

subsection \<open>isAuthenticated\<close>

lemma isAuthenticated_total: "\<exists>b. isAuthenticated pf clock w = Inr b"
  by (cases "getToken w"; cases "isAuthenticated_try pf clock (the (getToken w))")
     (auto simp add: isAuthenticated_def)

text \<open>Three readings of the clock and the doubles that \<open>Date.now() / 1000\<close> gives for them.\<close>

lemma currentTime_examples:
  "currentTime 1999999 = Fin (8796088624161489 / 4398046511104)"
  "currentTime 2000000 = Fin 2000"
  "currentTime 1999999002 = Fin (8589930305622639 / 4294967296)"
  by code_simp+

text \<open>
  Claim C9, as the code has it. \<open>isAuthenticated\<close> never throws: it returns a boolean in
  every case. It returns \<open>true\<close> if and only if a non-empty access token is stored,
  \<open>atob\<close> decodes its second dot-separated segment, \<open>JSON.parse\<close> accepts the decoded
  text, the parsed value has a readable \<open>exp\<close>, and that \<open>exp\<close>, as a number, is
  strictly greater than the current time in seconds as the code computes it: the double
  nearest to \<open>Date.now() / 1000\<close>. In particular it returns \<open>false\<close> for an absent or
  empty token, for a segment that does not decode, for a text that does not parse, and for
  a numeric \<open>exp\<close> that is not greater than that double.
\<close>

theorem isAuthenticated_iff_unexpired_token:
  "(\<exists>b. isAuthenticated pf clock w = Inr b)
   \<and> (isAuthenticated pf clock w = Inr True)
       = (\<exists>token decoded payload exp_claim.
            getToken w = Some token \<and> token \<noteq> []
            \<and> atob pf (payload_segment token) = Some decoded
            \<and> JSON_parse pf decoded = Some payload
            \<and> get_exp payload = Inr exp_claim
            \<and> js_greater (ToNumber pf exp_claim) (currentTime clock))
   \<and> (getToken w = None \<or> getToken w = Some [] \<longrightarrow> isAuthenticated pf clock w = Inr False)
   \<and> (\<forall>token. getToken w = Some token \<and> atob pf (payload_segment token) = None \<longrightarrow>
          isAuthenticated pf clock w = Inr False)
   \<and> (\<forall>token decoded. getToken w = Some token \<and> atob pf (payload_segment token) = Some decoded
          \<and> JSON_parse pf decoded = None \<longrightarrow>
          isAuthenticated pf clock w = Inr False)
   \<and> (\<forall>token decoded members e t.
          getToken w = Some token \<and> atob pf (payload_segment token) = Some decoded
          \<and> JSON_parse pf decoded = Some (JObj members)
          \<and> map_of members ''exp'' = Some (JNum (Fin e))
          \<and> currentTime clock = Fin t \<and> e \<le> t \<longrightarrow>
          isAuthenticated pf clock w = Inr False)"
proof -
  have total: "\<exists>b. isAuthenticated pf clock w = Inr b"
    by (rule isAuthenticated_total)
  have iff: "(isAuthenticated pf clock w = Inr True)
       = (\<exists>token decoded payload exp_claim.
            getToken w = Some token \<and> token \<noteq> []
            \<and> atob pf (payload_segment token) = Some decoded
            \<and> JSON_parse pf decoded = Some payload
            \<and> get_exp payload = Inr exp_claim
            \<and> js_greater (ToNumber pf exp_claim) (currentTime clock))"
    by (auto simp: isAuthenticated_def isAuthenticated_try_def
        split: option.splits sum.splits if_splits)
  have absent: "getToken w = None \<or> getToken w = Some [] \<longrightarrow> isAuthenticated pf clock w = Inr False"
    by (auto simp: isAuthenticated_def)
  have undecodable: "\<forall>token. getToken w = Some token \<and> atob pf (payload_segment token) = None \<longrightarrow>
          isAuthenticated pf clock w = Inr False"
    by (auto simp: isAuthenticated_def isAuthenticated_try_def)
  have unparsable: "\<forall>token decoded. getToken w = Some token
          \<and> atob pf (payload_segment token) = Some decoded
          \<and> JSON_parse pf decoded = None \<longrightarrow>
          isAuthenticated pf clock w = Inr False"
    by (auto simp: isAuthenticated_def isAuthenticated_try_def)
  have expired: "\<forall>token decoded members e t.
          getToken w = Some token \<and> atob pf (payload_segment token) = Some decoded
          \<and> JSON_parse pf decoded = Some (JObj members)
          \<and> map_of members ''exp'' = Some (JNum (Fin e))
          \<and> currentTime clock = Fin t \<and> e \<le> t \<longrightarrow>
          isAuthenticated pf clock w = Inr False"
    by (auto simp: isAuthenticated_def isAuthenticated_try_def get_exp_def ToNumber_def
        js_greater_def)
  from total iff absent undecodable unparsable expired show ?thesis by blast
qed

theorem isAuthenticated_iff_unexpired_token_witness:
  "isAuthenticated table_platform 1999999 signed_in = Inr True
   \<and> isAuthenticated table_platform 2000000 signed_in = Inr False
   \<and> isAuthenticated table_platform 0 stale_session = Inr False
   \<and> isAuthenticated table_platform 0 (signed_in\<lparr>ls_accessToken := None\<rparr>) = Inr False"
proof -
  have tok: "getToken signed_in = Some ''HEADER.PAYLOAD.SIGNATURE''"
      "''HEADER.PAYLOAD.SIGNATURE'' \<noteq> []"
    and seg: "payload_segment ''HEADER.PAYLOAD.SIGNATURE'' = ''PAYLOAD''"
    by (simp_all add: signed_in_def getToken_def payload_segment_def)
  have dec: "atob table_platform (payload_segment ''HEADER.PAYLOAD.SIGNATURE'') = Some ''{exp:2000}''"
    and par: "JSON_parse table_platform ''{exp:2000}'' = Some (JObj [(''exp'', JNum (Fin 2000))])"
    and ex: "get_exp (JObj [(''exp'', JNum (Fin 2000))]) = Inr (Some (JNum (Fin 2000)))"
    and mo: "map_of [(''exp'', JNum (Fin 2000))] ''exp'' = Some (JNum (Fin 2000))"
    by (simp_all add: seg table_platform_def get_exp_def)
  have gt: "js_greater (ToNumber table_platform (Some (JNum (Fin 2000)))) (currentTime 1999999)"
    and le: "currentTime 2000000 = Fin 2000" "(2000::rat) \<le> 2000"
    by (simp_all add: js_greater_def ToNumber_def currentTime_examples)
  have "\<exists>token decoded payload exp_claim.
            getToken signed_in = Some token \<and> token \<noteq> []
            \<and> atob table_platform (payload_segment token) = Some decoded
            \<and> JSON_parse table_platform decoded = Some payload
            \<and> get_exp payload = Inr exp_claim
            \<and> js_greater (ToNumber table_platform exp_claim) (currentTime 1999999)"
    using tok dec par ex gt by blast
  with isAuthenticated_iff_unexpired_token [of table_platform 1999999 signed_in]
  have first: "isAuthenticated table_platform 1999999 signed_in = Inr True"
    by blast
  from isAuthenticated_iff_unexpired_token [of table_platform 2000000 signed_in]
  have "\<forall>token decoded members e t.
          getToken signed_in = Some token
          \<and> atob table_platform (payload_segment token) = Some decoded
          \<and> JSON_parse table_platform decoded = Some (JObj members)
          \<and> map_of members ''exp'' = Some (JNum (Fin e))
          \<and> currentTime 2000000 = Fin t \<and> e \<le> t \<longrightarrow>
          isAuthenticated table_platform 2000000 signed_in = Inr False"
    by blast
  from this [rule_format, OF conjI [OF tok(1) conjI [OF dec conjI [OF par conjI [OF mo
      conjI [OF le]]]]]]
  have second: "isAuthenticated table_platform 2000000 signed_in = Inr False" .
  have tok3: "getToken stale_session = Some ''expired''"
    and dec3: "atob table_platform (payload_segment ''expired'') = None"
    by (simp_all add: stale_session_def getToken_def payload_segment_def table_platform_def)
  from isAuthenticated_iff_unexpired_token [of table_platform 0 stale_session]
  have "\<forall>token. getToken stale_session = Some token
           \<and> atob table_platform (payload_segment token) = None \<longrightarrow>
          isAuthenticated table_platform 0 stale_session = Inr False"
    by blast
  from this [rule_format, OF conjI [OF tok3 dec3]]
  have third: "isAuthenticated table_platform 0 stale_session = Inr False" .
  have tok4: "getToken (signed_in\<lparr>ls_accessToken := None\<rparr>) = None
      \<or> getToken (signed_in\<lparr>ls_accessToken := None\<rparr>) = Some []"
    by (simp add: getToken_def)
  from isAuthenticated_iff_unexpired_token [of table_platform 0 "signed_in\<lparr>ls_accessToken := None\<rparr>"]
    tok4
  have fourth: "isAuthenticated table_platform 0 (signed_in\<lparr>ls_accessToken := None\<rparr>) = Inr False"
    by blast
  from first second third fourth show ?thesis by blast
qed

text \<open>
  The claim as stated compares \<open>exp\<close> with the current time in seconds. At the clock
  reading 1999999002 ms the current time is 1999999.002 s, which is not a double; the
  quotient \<open>Date.now() / 1000\<close> is rounded up to the nearest one,
  8589930305622639 / 4294967296. A token whose \<open>exp\<close> is that double is later than the
  current time, yet \<open>isAuthenticated\<close> returns \<open>false\<close>.
\<close>

theorem isAuthenticated_rounding_counterexample:
  "isAuthenticated table_platform 1999999002 signed_in_fraction = Inr False
   \<and> getToken signed_in_fraction = Some ''HEADER.PAYLOAD2.SIGNATURE''
   \<and> atob table_platform (payload_segment ''HEADER.PAYLOAD2.SIGNATURE'')
       = Some ''{exp:1999999.0020000001}''
   \<and> JSON_parse table_platform ''{exp:1999999.0020000001}''
       = Some (JObj [(''exp'', JNum (Fin (8589930305622639 / 4294967296)))])
   \<and> get_exp (JObj [(''exp'', JNum (Fin (8589930305622639 / 4294967296)))])
       = Inr (Some (JNum (Fin (8589930305622639 / 4294967296))))
   \<and> (of_int 1999999002 / 1000 :: rat) < 8589930305622639 / 4294967296
   \<and> (of_int 1999999002 / 1000 :: rat) < 19999990020000001 / 10000000000"
proof -
  have seg: "payload_segment ''HEADER.PAYLOAD2.SIGNATURE'' = ''PAYLOAD2''"
    by (simp add: payload_segment_def)
  show ?thesis
    by (simp add: isAuthenticated_def isAuthenticated_try_def signed_in_fraction_def getToken_def
        seg table_platform_def get_exp_def ToNumber_def js_greater_def currentTime_examples)
qed

end
